theory Spec2Isabelle
  imports Main "HOL-Library.Sublist"
begin

section \<open>Adaptive AI Tutor: the Streamlit script \<^verbatim>\<open>tutor_app.py\<close>\<close>

text \<open>
  The program is one Streamlit script. Streamlit runs the whole script again after every
  interaction of the user; what survives from one run to the next is
  \<^verbatim>\<open>st.session_state\<close>. The development models one run of the script as a function
  from the widget values of that run, the behaviour of the \<^verbatim>\<open>google.generativeai\<close>
  library during that run and the session state before the run, to the session state after
  the run and the list of things the run did (messages shown, library calls made).

  Python strings are modelled as \<^typ>\<open>string\<close>. Concatenation, \<^verbatim>\<open>str.join\<close>, the
  emptiness test and the scan of \<^verbatim>\<open>str.format\<close> for ASCII braces act on the UTF-8
  bytes of a text exactly as they act on its code points, so one \<^typ>\<open>char\<close> per byte
  loses nothing here.
\<close>

subsection \<open>Exceptions\<close>

text \<open>
  Every \<^verbatim>\<open>raise\<close> is a value. \<open>SdkError\<close> stands for any exception raised inside the
  \<^verbatim>\<open>google.generativeai\<close> library (authentication, network, quota, blocked response),
  with the text \<^verbatim>\<open>str(e)\<close> it carries. \<open>Unmodelled\<close> marks the parts of the
  \<^verbatim>\<open>str.format\<close> mini-language that \<open>str_format\<close> below does not cover.
\<close>

datatype exn =
    ValueError string
  | KeyError string
  | AttributeError string
  | SdkError string
  | Unmodelled string

text \<open>
  The text an f-string shows for \<^verbatim>\<open>{e}\<close>. A \<^verbatim>\<open>KeyError\<close> shows the \<^verbatim>\<open>repr\<close> of
  its key, which for a key without quotes, backslashes or control characters is the key
  between single quotes.
\<close>

fun str_exn :: "exn \<Rightarrow> string" where
  "str_exn (ValueError m) = m"
| "str_exn (KeyError k) = [CHR 0x27] @ k @ [CHR 0x27]"
| "str_exn (AttributeError m) = m"
| "str_exn (SdkError m) = m"
| "str_exn (Unmodelled m) = m"

subsection \<open>\<^verbatim>\<open>str.join\<close> and \<^verbatim>\<open>str.format\<close>\<close>

text \<open>\<^verbatim>\<open>sep.join(xs)\<close>: the elements in order, \<open>sep\<close> between neighbours.\<close>

fun str_join :: "string \<Rightarrow> string list \<Rightarrow> string" where
  "str_join sep [] = []"
| "str_join sep [x] = x"
| "str_join sep (x # y # ys) = x @ sep @ str_join sep (y # ys)"

definition is_digit :: "char \<Rightarrow> bool" where
  "is_digit c = (c \<in> set ''0123456789'')"

text \<open>
  \<^verbatim>\<open>template.format(**kwargs)\<close> with keyword arguments only, all of them strings. The
  template is scanned once from the left: \<^verbatim>\<open>{{\<close> and \<^verbatim>\<open>}}\<close> give one brace, a single
  \<^verbatim>\<open>}\<close> is a \<^verbatim>\<open>ValueError\<close>, \<^verbatim>\<open>{name}\<close> is replaced by the argument of that name and
  a name that was not passed is a \<^verbatim>\<open>KeyError\<close>. The replacement text is not scanned
  again. A field that is empty or a number refers to a positional argument, and a field
  with a conversion (\<^verbatim>\<open>!\<close>), a format specification (\<^verbatim>\<open>:\<close>), an attribute or index
  (\<^verbatim>\<open>.\<close>, \<^verbatim>\<open>[\<close>) or a nested brace has further meaning in Python: these are outside
  the model and give \<open>Unmodelled\<close>. \<open>format_field\<close> reads a field after its opening
  brace, with the characters of the name read so far.
\<close>

fun str_format :: "string \<Rightarrow> (string \<times> string) list \<Rightarrow> exn + string"
  and format_field :: "string \<Rightarrow> string \<Rightarrow> (string \<times> string) list \<Rightarrow> exn + string" where
  "str_format [] kwargs = Inr []"
| "str_format [c] kwargs =
     (if c = CHR ''{'' then Inl (ValueError ''Single '{' encountered in format string'')
      else if c = CHR ''}'' then Inl (ValueError ''Single '}' encountered in format string'')
      else Inr [c])"
| "str_format (c # d # cs) kwargs =
     (if c = CHR ''{'' then
        (if d = CHR ''{'' then
           (case str_format cs kwargs of Inl e \<Rightarrow> Inl e | Inr r \<Rightarrow> Inr (c # r))
         else format_field [] (d # cs) kwargs)
      else if c = CHR ''}'' then
        (if d = CHR ''}'' then
           (case str_format cs kwargs of Inl e \<Rightarrow> Inl e | Inr r \<Rightarrow> Inr (c # r))
         else Inl (ValueError ''Single '}' encountered in format string''))
      else (case str_format (d # cs) kwargs of Inl e \<Rightarrow> Inl e | Inr r \<Rightarrow> Inr (c # r)))"
| "format_field name [] kwargs = Inl (ValueError ''expected '}' before end of string'')"
| "format_field name (c # cs) kwargs =
     (if c = CHR ''}'' then
        (if name = [] \<or> list_all is_digit name then Inl (Unmodelled ''positional field'')
         else (case map_of kwargs name of
                 None \<Rightarrow> Inl (KeyError name)
               | Some v \<Rightarrow>
                   (case str_format cs kwargs of Inl e \<Rightarrow> Inl e | Inr r \<Rightarrow> Inr (v @ r))))
      else if c \<in> set ''{!:.['' then Inl (Unmodelled ''field syntax'')
      else format_field (name @ [c]) cs kwargs)"

subsection \<open>The prompt template\<close>

text \<open>
  The constant \<^verbatim>\<open>PROMPT_TEMPLATE\<close>, one literal for each line of the triple-quoted
  string, the line break included. The string starts with the line break that follows the
  opening quotes.
\<close>

definition PROMPT_TEMPLATE :: string where
  \<open>PROMPT_TEMPLATE =
     ''\<newline>'' @
     ''**I. The Persona and Role**\<newline>'' @
     ''\<newline>'' @
     ''You are an expert Computer Science teaching assistant and study partner for the university-level course, "{class_name}". Your persona is encouraging, precise, and deeply knowledgeable. You are not just a question-answerer; you are a guide. Your goal is to help me, the student, achieve true mastery of the course material in preparation for an exam. You will maintain a positive and motivational tone throughout our interaction.\<newline>'' @
     ''\<newline>'' @
     ''**II. The Initial Knowledge Base & Starting Point**\<newline>'' @
     ''\<newline>'' @
     ''You are being brought into an ongoing, adaptive study session. Your first task is to absorb the provided context to continue the session seamlessly.\<newline>'' @
     ''\<newline>'' @
     ''**Your initial context consists of:**\<newline>'' @
     ''\<newline>'' @
     ''1.  **My Learning Materials:** I have provided a set of files for context named: {file_names_str}.\<newline>'' @
     ''2.  **My Core Topic List:** The following is a list of the core topics I need to master for my exam:\<newline>'' @
     ''{topic_list}\<newline>'' @
     ''\<newline>'' @
     ''**Your first action is to analyze this context to establish a baseline understanding of my current knowledge state. Use this to determine the initial set of "Mastered Topics" and "Working Topics". Do not generate a study guide or start with an easy quiz. We are jumping directly into the core learning loop.**\<newline>'' @
     ''\<newline>'' @
     ''**III. The Core Interaction Loop: The Adaptive Quiz System**\<newline>'' @
     ''\<newline>'' @
     ''After analyzing the initial context, you will begin generating practice quizzes according to the following iterative loop.\<newline>'' @
     ''\<newline>'' @
     ''**A. Quiz Generation:**\<newline>'' @
     ''\<newline>'' @
     ''1.  Generate a practice quiz for me. Quizzes should be short (5-7 questions) and contain a mix of formats suitable for the subject. Quizzes should contain MCQ (Multiple Choice Questions) and FRQ (Free Response Questions).\<newline>'' @
     ''2.  **Difficulty & Content Strategy:** All quizzes will be of a consistent, higher difficulty (e.g., 7/10), designed to test nuanced understanding. You must track my performance on a topic-by-topic basis to categorize topics into "Mastered", "Working", and "New". Each quiz must follow this distribution: **~20% Mastered, ~60% Working, and ~20% New Topics.** You must explicitly state when you are using this adaptive strategy.\<newline>'' @
     ''3.  **Question Formats:** Use diverse formats like Scenario Analysis, Spot the Flaw, Compare and Contrast, and Justify the 'Why'.\<newline>'' @
     ''\<newline>'' @
     ''**B. Grading and Feedback:**\<newline>'' @
     ''\<newline>'' @
     ''1.  I will provide my answers. You will grade them meticulously, providing a score.\<newline>'' @
     ''2.  For each question, provide a detailed explanation for the correct answer. Acknowledge the reasoning in my answers, even if they are incorrect.\<newline>'' @
     ''3.  After grading, provide a brief, encouraging "Final Score & Summary".\<newline>'' @
     ''\<newline>'' @
     ''**IV. Special Commands and Meta-Interaction**\<newline>'' @
     ''\<newline>'' @
     ''1.  At any time, I can ask for a "Progress Report." You will then synthesize all our quiz interactions and provide a summary of my progress.\<newline>'' @
     ''2.  I will provide feedback on your performance, and you must incorporate it into your subsequent actions.\<newline>'' @
     ''\<newline>'' @
     ''**V. The Goal State**\<newline>'' @
     ''\<newline>'' @
     ''Our interaction is successful when I have achieved a perfect score on three consecutive quizzes. At that point, you can congratulate me and conclude the session.\<newline>'' @
     ''\<newline>'' @
     ''**Your first message to me should be a brief, welcoming greeting, confirming you have understood the context and are ready to begin with the first targeted quiz.**\<newline>''\<close>

text \<open>
  The four stretches of text between the three fields of the template. They are used to
  say what the formatted prompt is; \<open>PROMPT_TEMPLATE_fields\<close> below proves that they
  make up the template.
\<close>

definition template_persona :: string where
  \<open>template_persona =
     ''\<newline>'' @
     ''**I. The Persona and Role**\<newline>'' @
     ''\<newline>'' @
     ''You are an expert Computer Science teaching assistant and study partner for the university-level course, "''\<close>

definition template_context :: string where
  \<open>template_context =
     ''". Your persona is encouraging, precise, and deeply knowledgeable. You are not just a question-answerer; you are a guide. Your goal is to help me, the student, achieve true mastery of the course material in preparation for an exam. You will maintain a positive and motivational tone throughout our interaction.\<newline>'' @
     ''\<newline>'' @
     ''**II. The Initial Knowledge Base & Starting Point**\<newline>'' @
     ''\<newline>'' @
     ''You are being brought into an ongoing, adaptive study session. Your first task is to absorb the provided context to continue the session seamlessly.\<newline>'' @
     ''\<newline>'' @
     ''**Your initial context consists of:**\<newline>'' @
     ''\<newline>'' @
     ''1.  **My Learning Materials:** I have provided a set of files for context named: ''\<close>

definition template_topics :: string where
  \<open>template_topics =
     ''.\<newline>'' @
     ''2.  **My Core Topic List:** The following is a list of the core topics I need to master for my exam:\<newline>''\<close>

definition template_loop :: string where
  \<open>template_loop =
     ''\<newline>'' @
     ''\<newline>'' @
     ''**Your first action is to analyze this context to establish a baseline understanding of my current knowledge state. Use this to determine the initial set of "Mastered Topics" and "Working Topics". Do not generate a study guide or start with an easy quiz. We are jumping directly into the core learning loop.**\<newline>'' @
     ''\<newline>'' @
     ''**III. The Core Interaction Loop: The Adaptive Quiz System**\<newline>'' @
     ''\<newline>'' @
     ''After analyzing the initial context, you will begin generating practice quizzes according to the following iterative loop.\<newline>'' @
     ''\<newline>'' @
     ''**A. Quiz Generation:**\<newline>'' @
     ''\<newline>'' @
     ''1.  Generate a practice quiz for me. Quizzes should be short (5-7 questions) and contain a mix of formats suitable for the subject. Quizzes should contain MCQ (Multiple Choice Questions) and FRQ (Free Response Questions).\<newline>'' @
     ''2.  **Difficulty & Content Strategy:** All quizzes will be of a consistent, higher difficulty (e.g., 7/10), designed to test nuanced understanding. You must track my performance on a topic-by-topic basis to categorize topics into "Mastered", "Working", and "New". Each quiz must follow this distribution: **~20% Mastered, ~60% Working, and ~20% New Topics.** You must explicitly state when you are using this adaptive strategy.\<newline>'' @
     ''3.  **Question Formats:** Use diverse formats like Scenario Analysis, Spot the Flaw, Compare and Contrast, and Justify the 'Why'.\<newline>'' @
     ''\<newline>'' @
     ''**B. Grading and Feedback:**\<newline>'' @
     ''\<newline>'' @
     ''1.  I will provide my answers. You will grade them meticulously, providing a score.\<newline>'' @
     ''2.  For each question, provide a detailed explanation for the correct answer. Acknowledge the reasoning in my answers, even if they are incorrect.\<newline>'' @
     ''3.  After grading, provide a brief, encouraging "Final Score & Summary".\<newline>'' @
     ''\<newline>'' @
     ''**IV. Special Commands and Meta-Interaction**\<newline>'' @
     ''\<newline>'' @
     ''1.  At any time, I can ask for a "Progress Report." You will then synthesize all our quiz interactions and provide a summary of my progress.\<newline>'' @
     ''2.  I will provide feedback on your performance, and you must incorporate it into your subsequent actions.\<newline>'' @
     ''\<newline>'' @
     ''**V. The Goal State**\<newline>'' @
     ''\<newline>'' @
     ''Our interaction is successful when I have achieved a perfect score on three consecutive quizzes. At that point, you can congratulate me and conclude the session.\<newline>'' @
     ''\<newline>'' @
     ''**Your first message to me should be a brief, welcoming greeting, confirming you have understood the context and are ready to begin with the first targeted quiz.**\<newline>''\<close>

subsection \<open>Widgets, the library, the session state\<close>

text \<open>
  A file of \<^verbatim>\<open>st.file_uploader\<close>: the script reads only \<^verbatim>\<open>file.name\<close>;
  \<open>file_bytes\<close> is the content the user uploaded with it.
\<close>

record uploaded_file =
  name :: string
  file_bytes :: string

text \<open>
  What the widgets return in one run of the script: the three text inputs of the sidebar,
  the list of \<^verbatim>\<open>st.file_uploader(..., accept_multiple_files=True)\<close>, whether
  \<^verbatim>\<open>st.button("Generate Tutor")\<close> returned \<^verbatim>\<open>True\<close>, and the value of
  \<^verbatim>\<open>st.chat_input\<close> (\<^verbatim>\<open>None\<close> when nothing was submitted).
\<close>

record widgets =
  api_key :: string
  class_name :: string
  topic_list :: string
  uploaded_files :: "uploaded_file list"
  generate_clicked :: bool
  chat_input :: "string option"

text \<open>
  The objects of \<^verbatim>\<open>google.generativeai\<close> are references the script only passes on. A
  response is what reading its \<^verbatim>\<open>.text\<close> gives: the text, or the exception the
  property raises (as it does for a blocked or empty candidate).
\<close>

datatype generative_model = ModelRef nat
datatype chat_session = ChatRef nat
datatype response = Response (text_of: "exn + string")

text \<open>
  The library is not part of the repository: its behaviour during one run is a parameter.
  Each call either returns or raises.
\<close>

record sdk =
  configure :: "string \<Rightarrow> exn option"
  GenerativeModel :: "string \<Rightarrow> exn + generative_model"
  start_chat :: "generative_model \<Rightarrow> exn + chat_session"
  send_message :: "chat_session \<Rightarrow> string \<Rightarrow> exn + response"

text \<open>An entry of the transcript, \<^verbatim>\<open>{"role": ..., "content": ...}\<close>.\<close>

record message =
  role :: string
  content :: string

text \<open>
  \<^verbatim>\<open>st.session_state\<close> with the two keys the script uses; \<open>None\<close> is a key that is
  not in the session state.
\<close>

record session_state =
  gemini_chat :: "chat_session option"
  messages :: "message list option"

definition empty_session :: session_state where
  "empty_session = \<lparr>gemini_chat = None, messages = None\<rparr>"

text \<open>
  What a run does besides changing the session state, in the order it does it: the
  messages it shows with \<^verbatim>\<open>st.error\<close>, \<^verbatim>\<open>st.info\<close> and \<^verbatim>\<open>st.success\<close>, the chat
  bubbles (\<^verbatim>\<open>st.chat_message(role)\<close> with \<^verbatim>\<open>st.markdown(content)\<close> inside) and the
  calls into the library. Headers, spinners and the page set-up are left out.
\<close>

datatype event =
    StError string
  | StInfo string
  | StSuccess string
  | StChatMessage string string
  | CallConfigure string
  | CallGenerativeModel string
  | CallStartChat generative_model
  | CallSendMessage chat_session string

fun is_library_call :: "event \<Rightarrow> bool" where
  "is_library_call (CallConfigure k) = True"
| "is_library_call (CallGenerativeModel n) = True"
| "is_library_call (CallStartChat m) = True"
| "is_library_call (CallSendMessage c p) = True"
| "is_library_call ev = False"

subsection \<open>Building the prompt (lines 107 to 118)\<close>

definition file_names_str :: "uploaded_file list \<Rightarrow> string" where
  "file_names_str files =
     (let file_names = map name files
      in if file_names = [] then ''No files provided. Using topic list only.''
         else str_join '', '' file_names)"

definition final_prompt :: "string \<Rightarrow> string \<Rightarrow> uploaded_file list \<Rightarrow> exn + string" where
  "final_prompt course topics files =
     str_format PROMPT_TEMPLATE
       [(''class_name'', course), (''topic_list'', topics),
        (''file_names_str'', file_names_str files)]"

subsection \<open>The "Generate Tutor" button (lines 95 to 136)\<close>

text \<open>
  The body of the \<^verbatim>\<open>try\<close>: the exception that left it, if any, the session state and
  the events at that point. The session state is assigned only after
  \<^verbatim>\<open>chat.send_message\<close> has returned; \<^verbatim>\<open>gemini_chat\<close> is assigned before
  \<^verbatim>\<open>initial_response.text\<close> is read for the assignment of \<^verbatim>\<open>messages\<close>.
\<close>

definition generate_try :: "sdk \<Rightarrow> widgets \<Rightarrow> session_state \<Rightarrow> exn option \<times> session_state \<times> event list" where
  "generate_try lib w s =
     (let ev1 = [CallConfigure (api_key w)] in
      case configure lib (api_key w) of
        Some e \<Rightarrow> (Some e, s, ev1)
      | None \<Rightarrow>
     (case final_prompt (class_name w) (topic_list w) (uploaded_files w) of
        Inl e \<Rightarrow> (Some e, s, ev1)
      | Inr prompt \<Rightarrow>
     (let ev2 = ev1 @ [CallGenerativeModel ''gemini-2.5-flash-preview-05-20''] in
      case GenerativeModel lib ''gemini-2.5-flash-preview-05-20'' of
        Inl e \<Rightarrow> (Some e, s, ev2)
      | Inr model \<Rightarrow>
     (let ev3 = ev2 @ [CallStartChat model] in
      case start_chat lib model of
        Inl e \<Rightarrow> (Some e, s, ev3)
      | Inr chat \<Rightarrow>
     (let ev4 = ev3 @ [CallSendMessage chat prompt] in
      case send_message lib chat prompt of
        Inl e \<Rightarrow> (Some e, s, ev4)
      | Inr initial_response \<Rightarrow>
     (let s1 = s\<lparr>gemini_chat := Some chat\<rparr> in
      case text_of initial_response of
        Inl e \<Rightarrow> (Some e, s1, ev4)
      | Inr reply \<Rightarrow>
          (None,
           s1\<lparr>messages := Some [\<lparr>role = ''assistant'', content = reply\<rparr>]\<rparr>,
           ev4 @ [StSuccess ''Tutor generated successfully! You can now start chatting below.''])))))))"

definition generate_handler :: "sdk \<Rightarrow> widgets \<Rightarrow> session_state \<Rightarrow> session_state \<times> event list" where
  "generate_handler lib w s =
     (if generate_clicked w then
        if api_key w = [] then
          (s, [StError ''Please enter your Gemini API Key in the sidebar.''])
        else if class_name w = [] \<or> topic_list w = [] then
          (s, [StError ''Please provide the Course Name and Topic List.''])
        else
          (case generate_try lib w s of
             (None, s', evs) \<Rightarrow> (s', evs)
           | (Some e, s', evs) \<Rightarrow>
               (s', evs @
                  [StError (''An error occurred: '' @ str_exn e),
                   StInfo ''Please check your API key and ensure it has access to the Gemini 1.5 Pro model.'']))
      else (s, []))"

subsection \<open>The chat interface (lines 139 to 166)\<close>

text \<open>
  The user's entry is appended before the \<^verbatim>\<open>try\<close>; the \<^verbatim>\<open>except\<close> shows an error
  and changes nothing. Reading \<^verbatim>\<open>st.session_state.gemini_chat\<close> when the key is missing
  raises an \<^verbatim>\<open>AttributeError\<close> inside the \<^verbatim>\<open>try\<close>; Streamlit's message for it is
  longer than the text kept here. The reply's \<^verbatim>\<open>.text\<close> is read on line 161 and
  again on line 163 for the display; the same value is taken for both.
\<close>

definition chat_interface :: "sdk \<Rightarrow> widgets \<Rightarrow> session_state \<Rightarrow> session_state \<times> event list" where
  \<open>chat_interface lib w s =
     (case messages s of
        None \<Rightarrow> (s, [])
      | Some msgs \<Rightarrow>
     (let shown = map (\<lambda>msg. StChatMessage (role msg) (content msg)) msgs in
      case chat_input w of
        None \<Rightarrow> (s, shown)
      | Some prompt \<Rightarrow>
          if prompt = [] then (s, shown)
          else
     (let s1 = s\<lparr>messages := Some (msgs @ [\<lparr>role = ''user'', content = prompt\<rparr>])\<rparr>;
          ev1 = shown @ [StChatMessage ''user'' prompt];
          failed = (\<lambda>e evs. (s1, evs @
             [StError (''An error occurred while communicating with the AI: '' @ str_exn e)])) in
      case gemini_chat s1 of
        None \<Rightarrow> failed (AttributeError ''st.session_state has no attribute "gemini_chat"'') ev1
      | Some chat_session \<Rightarrow>
     (let ev2 = ev1 @ [CallSendMessage chat_session prompt] in
      case send_message lib chat_session prompt of
        Inl e \<Rightarrow> failed e ev2
      | Inr response \<Rightarrow>
     (case text_of response of
        Inl e \<Rightarrow> failed e ev2
      | Inr reply \<Rightarrow>
          (s1\<lparr>messages := Some (msgs @ [\<lparr>role = ''user'', content = prompt\<rparr>,
                                         \<lparr>role = ''assistant'', content = reply\<rparr>])\<rparr>,
           ev2 @ [StChatMessage ''assistant'' reply]))))))\<close>

subsection \<open>One run of the script, and the states the runs reach\<close>



subsection \<open>Example inputs\<close>

text \<open>
  A library that answers every message with \<open>answer\<close>, one whose
  \<^verbatim>\<open>send_message\<close> raises, one whose replies raise when their \<^verbatim>\<open>.text\<close> is
  read, the form of the end-to-end scenario, the session state
  after its first reply, and a session state with a longer transcript.
\<close>

definition lib_answering :: "string \<Rightarrow> sdk" where
  "lib_answering answer =
     \<lparr>configure = (\<lambda>k. None),
      GenerativeModel = (\<lambda>n. Inr (ModelRef 1)),
      start_chat = (\<lambda>m. Inr (ChatRef 2)),
      send_message = (\<lambda>c p. Inr (Response (Inr answer)))\<rparr>"

definition lib_unreachable :: sdk where
  "lib_unreachable =
     \<lparr>configure = (\<lambda>k. None),
      GenerativeModel = (\<lambda>n. Inr (ModelRef 1)),
      start_chat = (\<lambda>m. Inr (ChatRef 2)),
      send_message = (\<lambda>c p. Inl (SdkError ''503 Service Unavailable''))\<rparr>"


definition form_cs101 :: widgets where
  "form_cs101 =
     \<lparr>api_key = ''key'', class_name = ''CS101'', topic_list = ''Recursion'',
      uploaded_files = [], generate_clicked = True, chat_input = None\<rparr>"

definition session_started :: session_state where
  "session_started =
     \<lparr>gemini_chat = Some (ChatRef 2),
      messages = Some [\<lparr>role = ''assistant'', content = ''R1''\<rparr>]\<rparr>"


section \<open>Properties\<close>

subsection \<open>The template and \<^verbatim>\<open>str.format\<close>\<close>

text \<open>
  Text without braces is copied, and a field whose name was passed is replaced by its
  argument; the scan then goes on behind it.
\<close>

lemma str_format_plain:
  "CHR ''{'' \<notin> set lit \<Longrightarrow> CHR ''}'' \<notin> set lit \<Longrightarrow>
   str_format (lit @ rest) kwargs =
     (case str_format rest kwargs of Inl e \<Rightarrow> Inl e | Inr r \<Rightarrow> Inr (lit @ r))"
proof (induction lit)
  case Nil
  show ?case by (simp split: sum.split)
next
  case (Cons c lit)
  then have c: "c \<noteq> CHR ''{''" "c \<noteq> CHR ''}''" and
    ih: "str_format (lit @ rest) kwargs =
      (case str_format rest kwargs of Inl e \<Rightarrow> Inl e | Inr r \<Rightarrow> Inr (lit @ r))"
    by auto
  show ?case
  proof (cases "lit @ rest")
    case Nil
    then show ?thesis using c by simp
  next
    case (Cons d ds)
    then have "str_format ((c # lit) @ rest) kwargs =
      (case str_format (lit @ rest) kwargs of Inl e \<Rightarrow> Inl e | Inr r \<Rightarrow> Inr (c # r))"
      using c by simp
    then show ?thesis by (simp add: ih split: sum.split)
  qed
qed

lemma str_format_plain_end:
  "CHR ''{'' \<notin> set lit \<Longrightarrow> CHR ''}'' \<notin> set lit \<Longrightarrow> str_format lit kwargs = Inr lit"
  using str_format_plain [of lit "[]" kwargs] by simp

lemma field_class_name:
  "map_of kwargs ''class_name'' = Some v \<Longrightarrow>
   str_format (''{class_name}'' @ rest) kwargs =
     (case str_format rest kwargs of Inl e \<Rightarrow> Inl e | Inr r \<Rightarrow> Inr (v @ r))"
  by (simp add: is_digit_def)

lemma field_file_names_str:
  "map_of kwargs ''file_names_str'' = Some v \<Longrightarrow>
   str_format (''{file_names_str}'' @ rest) kwargs =
     (case str_format rest kwargs of Inl e \<Rightarrow> Inl e | Inr r \<Rightarrow> Inr (v @ r))"
  by (simp add: is_digit_def)

lemma field_topic_list:
  "map_of kwargs ''topic_list'' = Some v \<Longrightarrow>
   str_format (''{topic_list}'' @ rest) kwargs =
     (case str_format rest kwargs of Inl e \<Rightarrow> Inl e | Inr r \<Rightarrow> Inr (v @ r))"
  by (simp add: is_digit_def)

lemma PROMPT_TEMPLATE_fields:
  "PROMPT_TEMPLATE =
     template_persona @ ''{class_name}'' @ template_context @
     ''{file_names_str}'' @ template_topics @ ''{topic_list}'' @ template_loop"
  by (simp add: PROMPT_TEMPLATE_def template_persona_def template_context_def
      template_topics_def template_loop_def)

lemma template_persona_plain:
  "CHR ''{'' \<notin> set template_persona" "CHR ''}'' \<notin> set template_persona"
  by (simp_all add: template_persona_def)

lemma template_context_plain:
  "CHR ''{'' \<notin> set template_context" "CHR ''}'' \<notin> set template_context"
  by (simp_all add: template_context_def)

lemma template_topics_plain:
  "CHR ''{'' \<notin> set template_topics" "CHR ''}'' \<notin> set template_topics"
  by (simp_all add: template_topics_def)

lemma template_loop_plain:
  "CHR ''{'' \<notin> set template_loop" "CHR ''}'' \<notin> set template_loop"
  by (simp_all add: template_loop_def)

text \<open>
  The template has exactly the three fields the call passes, so formatting never raises:
  the prompt is the template with each field replaced by its argument.
\<close>

lemma final_prompt_text:
  "final_prompt course topics files =
     Inr (template_persona @ course @ template_context @ file_names_str files @
          template_topics @ topics @ template_loop)"
proof -
  let ?kw = "[(''class_name'', course), (''topic_list'', topics),
              (''file_names_str'', file_names_str files)]"
  have k1: "map_of ?kw ''class_name'' = Some course"
    and k2: "map_of ?kw ''file_names_str'' = Some (file_names_str files)"
    and k3: "map_of ?kw ''topic_list'' = Some topics"
    by simp_all
  have "str_format template_loop ?kw = Inr template_loop"
    by (rule str_format_plain_end [OF template_loop_plain])
  then have "str_format (''{topic_list}'' @ template_loop) ?kw = Inr (topics @ template_loop)"
    by (simp only: field_topic_list [OF k3] sum.case)
  then have "str_format (template_topics @ ''{topic_list}'' @ template_loop) ?kw =
      Inr (template_topics @ topics @ template_loop)"
    by (simp only: str_format_plain [OF template_topics_plain] sum.case)
  then have "str_format (''{file_names_str}'' @ template_topics @ ''{topic_list}'' @
      template_loop) ?kw = Inr (file_names_str files @ template_topics @ topics @ template_loop)"
    by (simp only: field_file_names_str [OF k2] sum.case)
  then have "str_format (template_context @ ''{file_names_str}'' @ template_topics @
      ''{topic_list}'' @ template_loop) ?kw =
      Inr (template_context @ file_names_str files @ template_topics @ topics @ template_loop)"
    by (simp only: str_format_plain [OF template_context_plain] sum.case)
  then have "str_format (''{class_name}'' @ template_context @ ''{file_names_str}'' @
      template_topics @ ''{topic_list}'' @ template_loop) ?kw =
      Inr (course @ template_context @ file_names_str files @ template_topics @ topics @
           template_loop)"
    by (simp only: field_class_name [OF k1] sum.case)
  then have "str_format (template_persona @ ''{class_name}'' @ template_context @
      ''{file_names_str}'' @ template_topics @ ''{topic_list}'' @ template_loop) ?kw =
      Inr (template_persona @ course @ template_context @ file_names_str files @
           template_topics @ topics @ template_loop)"
    by (simp only: str_format_plain [OF template_persona_plain] sum.case)
  then show ?thesis
    by (simp only: final_prompt_def PROMPT_TEMPLATE_fields)
qed

lemma sublist_middle: "sublist x (a @ x @ b)"
  unfolding sublist_def by blast

lemma final_prompt_has_course: "final_prompt course topics files = Inr p \<Longrightarrow> sublist course p"
  using sublist_middle [of course template_persona]
  by (auto simp add: final_prompt_text)

lemma final_prompt_has_topics: "final_prompt course topics files = Inr p \<Longrightarrow> sublist topics p"
  using sublist_middle [of topics
      "template_persona @ course @ template_context @ file_names_str files @ template_topics"
      template_loop]
  by (auto simp add: final_prompt_text)

lemma final_prompt_has_files:
  "final_prompt course topics files = Inr p \<Longrightarrow> sublist (file_names_str files) p"
  using sublist_middle [of "file_names_str files"
      "template_persona @ course @ template_context"
      "template_topics @ topics @ template_loop"]
  by (auto simp add: final_prompt_text)

lemma final_prompt_total: "\<exists>p. final_prompt course topics files = Inr p"
  by (simp add: final_prompt_text)

subsection \<open>What the prompt contains\<close>

text \<open>
  \<^verbatim>\<open>sep.join\<close> of a non-empty list, said without \<open>str_join\<close>: the first element,
  then each further element in order with \<open>sep\<close> before it.
\<close>

lemma str_join_concat:
  "str_join sep (x # xs) = x @ concat (map (\<lambda>y. sep @ y) xs)"
  by (induction xs arbitrary: x) simp_all

lemma file_names_str_concat:
  "file_names_str (f # fs) = name f @ concat (map (\<lambda>g. '', '' @ name g) fs)"
  by (simp add: file_names_str_def str_join_concat comp_def)

text \<open>
  Claim C4. When files were uploaded, the prompt contains their names joined with
  \<^verbatim>\<open>", "\<close> in upload order: the name of the first file, then for each further file
  in order a comma, a blank and its name; this text stands in the template's field for
  the file names. When no file was uploaded, the sentence
  \<^verbatim>\<open>No files provided. Using topic list only.\<close> stands there.
\<close>

theorem file_names_in_prompt:
  "(\<exists>p. final_prompt course topics (f # fs) = Inr p \<and>
        sublist (name f @ concat (map (\<lambda>g. '', '' @ name g) fs)) p \<and>
        p = template_persona @ course @ template_context @
            (name f @ concat (map (\<lambda>g. '', '' @ name g) fs)) @
            template_topics @ topics @ template_loop) \<and>
   (\<exists>p. final_prompt course topics [] = Inr p \<and>
        sublist ''No files provided. Using topic list only.'' p \<and>
        p = template_persona @ course @ template_context @
            ''No files provided. Using topic list only.'' @
            template_topics @ topics @ template_loop)"
proof (intro conjI)
  let ?joined = "name f @ concat (map (\<lambda>g. '', '' @ name g) fs)"
  let ?p = "template_persona @ course @ template_context @ ?joined @
            template_topics @ topics @ template_loop"
  have p: "final_prompt course topics (f # fs) = Inr ?p"
    by (simp only: final_prompt_text file_names_str_concat)
  have "sublist ?joined ?p"
    using sublist_middle [of ?joined "template_persona @ course @ template_context"
        "template_topics @ topics @ template_loop"]
    by simp
  with p show "\<exists>p. final_prompt course topics (f # fs) = Inr p \<and> sublist ?joined p \<and>
      p = template_persona @ course @ template_context @ ?joined @
          template_topics @ topics @ template_loop"
    by blast
next
  let ?none = "''No files provided. Using topic list only.''"
  let ?p = "template_persona @ course @ template_context @ ?none @
            template_topics @ topics @ template_loop"
  have none: "file_names_str [] = ?none"
    by (simp add: file_names_str_def)
  have p: "final_prompt course topics [] = Inr ?p"
    by (simp only: final_prompt_text none)
  have "sublist ?none ?p"
    using sublist_middle [of ?none "template_persona @ course @ template_context"
        "template_topics @ topics @ template_loop"]
    by simp
  with p show "\<exists>p. final_prompt course topics [] = Inr p \<and> sublist ?none p \<and>
      p = template_persona @ course @ template_context @ ?none @
          template_topics @ topics @ template_loop"
    by blast
qed

theorem file_names_in_prompt_witness:
  "(\<exists>p. final_prompt ''CS101'' ''Recursion''
          [\<lparr>name = ''a.pdf'', file_bytes = ''%PDF''\<rparr>, \<lparr>name = ''b.txt'', file_bytes = ''notes''\<rparr>,
           \<lparr>name = ''c.md'', file_bytes = ''more''\<rparr>] = Inr p \<and>
        sublist ''a.pdf, b.txt, c.md'' p \<and>
        p = template_persona @ ''CS101'' @ template_context @ ''a.pdf, b.txt, c.md'' @
            template_topics @ ''Recursion'' @ template_loop) \<and>
   (\<exists>p. final_prompt ''CS101'' ''Recursion'' [] = Inr p \<and>
        sublist ''No files provided. Using topic list only.'' p)"
  using file_names_in_prompt
    [of "''CS101''" "''Recursion''" "\<lparr>name = ''a.pdf'', file_bytes = ''%PDF''\<rparr>"
        "[\<lparr>name = ''b.txt'', file_bytes = ''notes''\<rparr>, \<lparr>name = ''c.md'', file_bytes = ''more''\<rparr>]"]
  by simp

text \<open>
  Claim C8. For a form that passes the checks of the button (API key, course name and
  topic list not empty), the prompt contains the course name and the topic list as they
  were typed, and with no file the sentence about no files as well.
\<close>

theorem course_and_topics_in_prompt:
  assumes "api_key w \<noteq> []" and "class_name w \<noteq> []" and "topic_list w \<noteq> []"
  shows "\<exists>p. final_prompt (class_name w) (topic_list w) (uploaded_files w) = Inr p \<and>
    sublist (class_name w) p \<and> sublist (topic_list w) p \<and>
    (uploaded_files w = [] \<longrightarrow> sublist ''No files provided. Using topic list only.'' p)"
proof -
  obtain p where p: "final_prompt (class_name w) (topic_list w) (uploaded_files w) = Inr p"
    using final_prompt_total by blast
  have "uploaded_files w = [] \<longrightarrow> sublist ''No files provided. Using topic list only.'' p"
    using final_prompt_has_files [OF p] by (auto simp add: file_names_str_def)
  with p final_prompt_has_course [OF p] final_prompt_has_topics [OF p]
  show ?thesis by blast
qed

theorem course_and_topics_in_prompt_witness:
  "api_key form_cs101 \<noteq> [] \<and> class_name form_cs101 \<noteq> [] \<and> topic_list form_cs101 \<noteq> [] \<and>
   uploaded_files form_cs101 = [] \<and>
   (\<exists>p. final_prompt ''CS101'' ''Recursion'' [] = Inr p \<and>
        sublist ''CS101'' p \<and> sublist ''Recursion'' p \<and>
        sublist ''No files provided. Using topic list only.'' p)"
  using course_and_topics_in_prompt [of form_cs101]
  by (simp add: form_cs101_def)

text \<open>
  Claim C7. The prompt is built from the names of the uploaded files only: two lists of
  files with the same names in the same order give the same prompt whatever the files
  contain, and the whole run of the button is the same for both.
\<close>

theorem prompt_ignores_file_contents:
  assumes "map name files = map name files'"
  shows "final_prompt course topics files = final_prompt course topics files' \<and>
    generate_handler lib (w\<lparr>uploaded_files := files'\<rparr>) s =
      generate_handler lib (w\<lparr>uploaded_files := files\<rparr>) s"
proof -
  from assms have "file_names_str files = file_names_str files'"
    by (simp add: file_names_str_def)
  then have eq: "final_prompt course topics files = final_prompt course topics files'" for course topics
    by (simp add: final_prompt_def)
  then have "generate_try lib (w\<lparr>uploaded_files := files'\<rparr>) s =
      generate_try lib (w\<lparr>uploaded_files := files\<rparr>) s"
    by (simp add: generate_try_def cong: option.case_cong sum.case_cong)
  then show ?thesis using eq by (simp add: generate_handler_def)
qed

theorem prompt_ignores_file_contents_witness:
  "map name [\<lparr>name = ''a.pdf'', file_bytes = ''first''\<rparr>] =
     map name [\<lparr>name = ''a.pdf'', file_bytes = ''second''\<rparr>] \<and>
   final_prompt ''CS101'' ''Recursion'' [\<lparr>name = ''a.pdf'', file_bytes = ''first''\<rparr>] =
     final_prompt ''CS101'' ''Recursion'' [\<lparr>name = ''a.pdf'', file_bytes = ''second''\<rparr>] \<and>
   generate_handler (lib_answering ''R1'')
       (form_cs101\<lparr>uploaded_files := [\<lparr>name = ''a.pdf'', file_bytes = ''second''\<rparr>]\<rparr>) empty_session =
     generate_handler (lib_answering ''R1'')
       (form_cs101\<lparr>uploaded_files := [\<lparr>name = ''a.pdf'', file_bytes = ''first''\<rparr>]\<rparr>) empty_session"
  using prompt_ignores_file_contents
    [of "[\<lparr>name = ''a.pdf'', file_bytes = ''first''\<rparr>]"
        "[\<lparr>name = ''a.pdf'', file_bytes = ''second''\<rparr>]"
        "''CS101''" "''Recursion''" "lib_answering ''R1''" form_cs101 empty_session]
  by simp

subsection \<open>What the button does\<close>

text \<open>
  The prompt passed to \<^verbatim>\<open>chat.send_message\<close> is the one built from the form; the
  first thing the \<^verbatim>\<open>try\<close> does is \<^verbatim>\<open>genai.configure\<close>; the \<^verbatim>\<open>try\<close> ends without
  an exception exactly when \<^verbatim>\<open>st.success\<close> is reached, and then the session state
  holds the new chat and a transcript of one entry.
\<close>

lemma generate_try_sends:
  "CallSendMessage c p \<in> set (snd (snd (generate_try lib w s))) \<Longrightarrow>
   final_prompt (class_name w) (topic_list w) (uploaded_files w) = Inr p"
  by (auto simp add: generate_try_def Let_def final_prompt_text split: option.splits sum.splits)

lemma generate_handler_sends:
  "CallSendMessage c p \<in> set (snd (generate_handler lib w s)) \<Longrightarrow>
   final_prompt (class_name w) (topic_list w) (uploaded_files w) = Inr p"
  using generate_try_sends [of c p lib w s]
  by (auto simp add: generate_handler_def split: if_splits prod.splits option.splits)

lemma generate_try_first_event:
  "\<exists>evs. snd (snd (generate_try lib w s)) = CallConfigure (api_key w) # evs"
  by (auto simp add: generate_try_def Let_def final_prompt_text split: option.splits sum.splits)




subsection \<open>Claims about the button\<close>

text \<open>
  Claim C3. The prompt is a function of the course name, the topic list and the names of
  the uploaded files alone. Take any two runs of the button whose forms agree on these
  three, whatever the session state before each run, the API key, the chat input and the
  behaviour of the library in each: the prompts they pass to \<^verbatim>\<open>send_message\<close> are the
  same text, and it is the value of \<open>final_prompt\<close>, which never raises.
\<close>

theorem prompt_builder_deterministic:
  assumes "class_name w1 = class_name w2"
    and "topic_list w1 = topic_list w2"
    and "map name (uploaded_files w1) = map name (uploaded_files w2)"
    and "CallSendMessage c1 p1 \<in> set (snd (generate_handler lib1 w1 s1))"
    and "CallSendMessage c2 p2 \<in> set (snd (generate_handler lib2 w2 s2))"
  shows "p1 = p2 \<and>
    final_prompt (class_name w1) (topic_list w1) (uploaded_files w1) = Inr p1 \<and>
    final_prompt (class_name w2) (topic_list w2) (uploaded_files w2) = Inr p2"
proof -
  have one: "final_prompt (class_name w1) (topic_list w1) (uploaded_files w1) = Inr p1"
    using assms(4) by (rule generate_handler_sends)
  have two: "final_prompt (class_name w2) (topic_list w2) (uploaded_files w2) = Inr p2"
    using assms(5) by (rule generate_handler_sends)
  from assms(3) have "file_names_str (uploaded_files w1) = file_names_str (uploaded_files w2)"
    by (simp add: file_names_str_def)
  with one two assms(1,2) have "p1 = p2"
    by (simp add: final_prompt_text)
  with one two show ?thesis by simp
qed

theorem prompt_builder_deterministic_witness:
  "class_name form_cs101 = class_name (form_cs101\<lparr>api_key := ''other key''\<rparr>) \<and>
   topic_list form_cs101 = topic_list (form_cs101\<lparr>api_key := ''other key''\<rparr>) \<and>
   map name (uploaded_files form_cs101) =
     map name (uploaded_files (form_cs101\<lparr>api_key := ''other key''\<rparr>)) \<and>
   CallSendMessage (ChatRef 2)
       (template_persona @ ''CS101'' @ template_context @
        ''No files provided. Using topic list only.'' @ template_topics @ ''Recursion'' @
        template_loop)
     \<in> set (snd (generate_handler (lib_answering ''R1'') form_cs101 empty_session)) \<and>
   CallSendMessage (ChatRef 2)
       (template_persona @ ''CS101'' @ template_context @
        ''No files provided. Using topic list only.'' @ template_topics @ ''Recursion'' @
        template_loop)
     \<in> set (snd (generate_handler lib_unreachable (form_cs101\<lparr>api_key := ''other key''\<rparr>)
                  session_started)) \<and>
   final_prompt ''CS101'' ''Recursion'' [] =
     Inr (template_persona @ ''CS101'' @ template_context @
          ''No files provided. Using topic list only.'' @ template_topics @ ''Recursion'' @
          template_loop)"
  using prompt_builder_deterministic
    [of form_cs101 "form_cs101\<lparr>api_key := ''other key''\<rparr>" "ChatRef 2"
        "template_persona @ ''CS101'' @ template_context @
         ''No files provided. Using topic list only.'' @ template_topics @ ''Recursion'' @
         template_loop"
        "lib_answering ''R1''" empty_session "ChatRef 2"
        "template_persona @ ''CS101'' @ template_context @
         ''No files provided. Using topic list only.'' @ template_topics @ ''Recursion'' @
         template_loop"
        lib_unreachable session_started]
  by (simp add: form_cs101_def lib_answering_def lib_unreachable_def generate_handler_def
      generate_try_def final_prompt_text file_names_str_def)

text \<open>
  Claim C5. When the button is pressed with an empty API key, course name or topic list,
  the run shows one \<^verbatim>\<open>st.error\<close> and does nothing else: the session state is unchanged,
  no call into the library is made and no prompt is built. A run of the button makes a
  call into the library only when all three are non-empty.
\<close>

theorem empty_field_rejected:
  "(generate_clicked w \<and> (api_key w = [] \<or> class_name w = [] \<or> topic_list w = []) \<longrightarrow>
      generate_handler lib w s =
        (s, [StError (if api_key w = [] then ''Please enter your Gemini API Key in the sidebar.''
                      else ''Please provide the Course Name and Topic List.'')])) \<and>
   ((\<exists>ev \<in> set (snd (generate_handler lib w s)). is_library_call ev) \<longrightarrow>
      generate_clicked w \<and> api_key w \<noteq> [] \<and> class_name w \<noteq> [] \<and> topic_list w \<noteq> [])"
  by (auto simp add: generate_handler_def split: if_splits)

theorem empty_field_rejected_witness:
  "generate_clicked (form_cs101\<lparr>topic_list := []\<rparr>) \<and>
   topic_list (form_cs101\<lparr>topic_list := []\<rparr>) = [] \<and>
   generate_handler (lib_answering ''R1'') (form_cs101\<lparr>topic_list := []\<rparr>) empty_session =
     (empty_session, [StError ''Please provide the Course Name and Topic List.'']) \<and>
   (\<exists>ev \<in> set (snd (generate_handler (lib_answering ''R1'') form_cs101 empty_session)).
      is_library_call ev) \<and>
   api_key form_cs101 \<noteq> [] \<and> class_name form_cs101 \<noteq> [] \<and> topic_list form_cs101 \<noteq> []"
  using empty_field_rejected [of "form_cs101\<lparr>topic_list := []\<rparr>" "lib_answering ''R1''" empty_session]
    empty_field_rejected [of form_cs101 "lib_answering ''R1''" empty_session]
  by (simp add: form_cs101_def lib_answering_def generate_handler_def
      generate_try_def final_prompt_text)

text \<open>
  Claim C9. The button rejects the form exactly when the API key, the course name or the
  topic list is the empty string. Any other value passes, a course name or topic list of
  blanks included: the \<^verbatim>\<open>try\<close> is entered, and once the library has returned a chat,
  the prompt sent holds the course name and the topic list as typed, untrimmed.
\<close>

theorem validation_rejects_only_empty:
  assumes "generate_clicked w"
  shows "((\<exists>msg. generate_handler lib w s = (s, [StError msg])) \<longleftrightarrow>
      (api_key w = [] \<or> class_name w = [] \<or> topic_list w = [])) \<and>
    (api_key w \<noteq> [] \<and> class_name w \<noteq> [] \<and> topic_list w \<noteq> [] \<longrightarrow>
       hd (snd (generate_handler lib w s)) = CallConfigure (api_key w) \<and>
       (\<forall>m c. configure lib (api_key w) = None \<and>
          GenerativeModel lib ''gemini-2.5-flash-preview-05-20'' = Inr m \<and>
          start_chat lib m = Inr c \<longrightarrow>
          CallSendMessage c
            (template_persona @ class_name w @ template_context @
             file_names_str (uploaded_files w) @ template_topics @ topic_list w @ template_loop)
          \<in> set (snd (generate_handler lib w s))))"
proof (intro conjI impI)
  show "(\<exists>msg. generate_handler lib w s = (s, [StError msg])) \<longleftrightarrow>
      (api_key w = [] \<or> class_name w = [] \<or> topic_list w = [])"
    using assms generate_try_first_event [of lib w s]
    by (auto simp add: generate_handler_def split: prod.splits option.splits)
next
  assume ok: "api_key w \<noteq> [] \<and> class_name w \<noteq> [] \<and> topic_list w \<noteq> []"
  show "hd (snd (generate_handler lib w s)) = CallConfigure (api_key w)"
    using assms ok generate_try_first_event [of lib w s]
    by (auto simp add: generate_handler_def split: prod.splits option.splits)
  show "\<forall>m c. configure lib (api_key w) = None \<and>
          GenerativeModel lib ''gemini-2.5-flash-preview-05-20'' = Inr m \<and>
          start_chat lib m = Inr c \<longrightarrow>
          CallSendMessage c
            (template_persona @ class_name w @ template_context @
             file_names_str (uploaded_files w) @ template_topics @ topic_list w @ template_loop)
          \<in> set (snd (generate_handler lib w s))"
    using assms ok
    by (auto simp add: generate_handler_def generate_try_def Let_def final_prompt_text
        split: prod.splits option.splits sum.splits)
qed

theorem validation_rejects_only_empty_witness:
  "generate_clicked (form_cs101\<lparr>class_name := ''   '', topic_list := '' \<newline> ''\<rparr>) \<and>
   \<not> (\<exists>msg. generate_handler (lib_answering ''R1'')
          (form_cs101\<lparr>class_name := ''   '', topic_list := '' \<newline> ''\<rparr>) empty_session =
        (empty_session, [StError msg])) \<and>
   hd (snd (generate_handler (lib_answering ''R1'')
          (form_cs101\<lparr>class_name := ''   '', topic_list := '' \<newline> ''\<rparr>) empty_session)) =
     CallConfigure ''key'' \<and>
   CallSendMessage (ChatRef 2)
       (template_persona @ ''   '' @ template_context @
        ''No files provided. Using topic list only.'' @ template_topics @ '' \<newline> '' @
        template_loop)
     \<in> set (snd (generate_handler (lib_answering ''R1'')
          (form_cs101\<lparr>class_name := ''   '', topic_list := '' \<newline> ''\<rparr>) empty_session))"
  using validation_rejects_only_empty
    [of "form_cs101\<lparr>class_name := ''   '', topic_list := '' \<newline> ''\<rparr>"
        "lib_answering ''R1''" empty_session]
  by (simp add: form_cs101_def lib_answering_def file_names_str_def)



subsection \<open>Claims about the transcript\<close>



text \<open>
  Claim C1 says that a failed \<^verbatim>\<open>send_message\<close> leaves the transcript as it was. The
  script appends the user's entry on line 150, before the \<^verbatim>\<open>try\<close>, and the
  \<^verbatim>\<open>except\<close> does not take it back: with a library that raises, a transcript of one
  entry has two entries after the run.
\<close>

theorem failed_send_changes_transcript_counterexample:
  "send_message lib_unreachable (ChatRef 2) ''quiz me'' = Inl (SdkError ''503 Service Unavailable'') \<and>
   messages session_started = Some [\<lparr>role = ''assistant'', content = ''R1''\<rparr>] \<and>
   messages (fst (chat_interface lib_unreachable
       (form_cs101\<lparr>generate_clicked := False, chat_input := Some ''quiz me''\<rparr>) session_started)) =
     Some [\<lparr>role = ''assistant'', content = ''R1''\<rparr>, \<lparr>role = ''user'', content = ''quiz me''\<rparr>]"
  by (simp add: chat_interface_def lib_unreachable_def session_started_def form_cs101_def)

text \<open>
  Claim C1, amended. When \<^verbatim>\<open>send_message\<close> raises, or the reply's \<^verbatim>\<open>.text\<close> does, the
  transcript after the run is the transcript before it with exactly one entry appended,
  the user's message; no assistant entry is appended, the chat handle is unchanged, and
  the run ends with the \<^verbatim>\<open>st.error\<close> of the \<^verbatim>\<open>except\<close>.
\<close>

theorem failed_send_keeps_user_entry:
  assumes "messages s = Some msgs" and "gemini_chat s = Some c"
    and "chat_input w = Some p" and "p \<noteq> []"
    and "send_message lib c p = Inl e \<or> (\<exists>r. send_message lib c p = Inr r \<and> text_of r = Inl e)"
  shows "chat_interface lib w s =
    (s\<lparr>messages := Some (msgs @ [\<lparr>role = ''user'', content = p\<rparr>])\<rparr>,
     map (\<lambda>msg. StChatMessage (role msg) (content msg)) msgs @
     [StChatMessage ''user'' p, CallSendMessage c p,
      StError (''An error occurred while communicating with the AI: '' @ str_exn e)])"
  using assms by (auto simp add: chat_interface_def)

theorem failed_send_keeps_user_entry_witness:
  "messages session_started = Some [\<lparr>role = ''assistant'', content = ''R1''\<rparr>] \<and>
   gemini_chat session_started = Some (ChatRef 2) \<and>
   chat_input (form_cs101\<lparr>generate_clicked := False, chat_input := Some ''quiz me''\<rparr>) =
     Some ''quiz me'' \<and>
   ''quiz me'' \<noteq> [] \<and>
   send_message lib_unreachable (ChatRef 2) ''quiz me'' = Inl (SdkError ''503 Service Unavailable'') \<and>
   chat_interface lib_unreachable
       (form_cs101\<lparr>generate_clicked := False, chat_input := Some ''quiz me''\<rparr>) session_started =
     (session_started\<lparr>messages :=
        Some [\<lparr>role = ''assistant'', content = ''R1''\<rparr>, \<lparr>role = ''user'', content = ''quiz me''\<rparr>]\<rparr>,
      [StChatMessage ''assistant'' ''R1'', StChatMessage ''user'' ''quiz me'',
       CallSendMessage (ChatRef 2) ''quiz me'',
       StError ''An error occurred while communicating with the AI: 503 Service Unavailable''])"
  using failed_send_keeps_user_entry
    [of session_started "[\<lparr>role = ''assistant'', content = ''R1''\<rparr>]" "ChatRef 2"
        "form_cs101\<lparr>generate_clicked := False, chat_input := Some ''quiz me''\<rparr>" "''quiz me''"
        lib_unreachable "SdkError ''503 Service Unavailable''"]
  by (simp add: lib_unreachable_def session_started_def form_cs101_def)

subsection \<open>The transcript never exists without a chat\<close>













end
